theory Spec2Isabelle
  imports Main
begin

section \<open>The values written in next.config.js\<close>

text \<open>
  The file is one object literal bound to \<open>nextConfig\<close> and one assignment
  \<open>module.exports = nextConfig\<close>. The literal is built from booleans, strings,
  an array and nested objects only. An object is kept as the list of its own
  properties in the order they are written, so that both the key set and the
  order can be stated.
\<close>

datatype jsval =
    JBool bool
  | JStr string
  | JArr "jsval list"
  | JObj "(string \<times> jsval) list"

text \<open>
  Reading an own property of a plain object. The file never reads a property
  of a boolean, a string or an array, so such a read is left without a value.
\<close>

fun own_property :: "string \<Rightarrow> jsval \<Rightarrow> jsval option" where
  "own_property k (JObj kvs) = map_of kvs k"
| "own_property k (JBool b) = None"
| "own_property k (JStr s) = None"
| "own_property k (JArr xs) = None"

text \<open>The own keys of a plain object, in the order of the literal.\<close>

fun own_keys :: "jsval \<Rightarrow> string list option" where
  "own_keys (JObj kvs) = Some (map fst kvs)"
| "own_keys (JBool b) = None"
| "own_keys (JStr s) = None"
| "own_keys (JArr xs) = None"

fun entries :: "jsval \<Rightarrow> (string \<times> jsval) list option" where
  "entries (JObj kvs) = Some kvs"
| "entries (JBool b) = None"
| "entries (JStr s) = None"
| "entries (JArr xs) = None"

fun elements :: "jsval \<Rightarrow> jsval list option" where
  "elements (JArr xs) = Some xs"
| "elements (JBool b) = None"
| "elements (JStr s) = None"
| "elements (JObj kvs) = None"

fun is_boolean :: "jsval \<Rightarrow> bool" where
  "is_boolean (JBool b) = True"
| "is_boolean (JStr s) = False"
| "is_boolean (JArr xs) = False"
| "is_boolean (JObj kvs) = False"

section \<open>The module\<close>

text \<open>
  Lines 2 to 9 of next.config.js: the literal. No key is written twice in any
  of its three objects, so the property list is the object.
\<close>

definition nextConfig :: jsval where
  "nextConfig =
     JObj [
       (''experimental'', JObj [
         (''appDir'', JBool True)
       ]),
       (''images'', JObj [
         (''domains'', JArr [JStr ''images.unsplash.com'', JStr ''ik.imagekit.io'',
                             JStr ''tailark.com'', JStr ''html.tailus.io''])
       ])
     ]"

text \<open>
  The CommonJS \<open>module\<close> object the file assigns to. Only its \<open>exports\<close> field is
  touched by the file; whatever else the object carries is the record's
  extension.
\<close>

record module =
  exports :: jsval

text \<open>
  The body of the file, with the literal as a parameter:
  \<open>const nextConfig = cfg; module.exports = nextConfig\<close>.
\<close>

definition module_body :: "jsval \<Rightarrow> 'a module_scheme \<Rightarrow> 'a module_scheme" where
  "module_body cfg m = m\<lparr>exports := cfg\<rparr>"

text \<open>
  Loading the configuration: the host evaluates the file against a module
  object and reads \<open>module.exports\<close>. An exception thrown while the file is
  evaluated would be the left summand; the file has no statement that throws,
  calls a function or reads a property, so no equation produces one.
\<close>

datatype error = Thrown jsval

definition load_with :: "jsval \<Rightarrow> 'a module_scheme \<Rightarrow> error + jsval" where
  "load_with cfg m = Inr (exports (module_body cfg m))"

definition load :: "'a module_scheme \<Rightarrow> error + jsval" where
  "load m = load_with nextConfig m"

text \<open>Reading a field of what was loaded; nothing can be read from an exception.\<close>

definition read_loaded :: "(jsval \<Rightarrow> 'b option) \<Rightarrow> error + jsval \<Rightarrow> 'b option" where
  "read_loaded f r = (case r of Inl e \<Rightarrow> None | Inr cfg \<Rightarrow> f cfg)"

section \<open>The two fields the host consumes\<close>

text \<open>\<open>experimentalFlags\<close> is the object under \<open>experimental\<close>, as its list of flags.\<close>

definition experimentalFlags :: "jsval \<Rightarrow> (string \<times> jsval) list option" where
  "experimentalFlags cfg = Option.bind (own_property ''experimental'' cfg) entries"

text \<open>\<open>imageRemoteSources\<close> is the array under \<open>images.domains\<close>.\<close>

definition imageRemoteSources :: "jsval \<Rightarrow> jsval list option" where
  "imageRemoteSources cfg =
     Option.bind (Option.bind (own_property ''images'' cfg) (own_property ''domains'')) elements"

section \<open>Hostname syntax\<close>

text \<open>
  The pattern the hostnames are checked against: labels separated by dots,
  each label a non-empty run of ASCII letters, digits and hyphens. The file
  holds no such check; the predicate states the property of its entries.
  \<open>label_char\<close> compares character codes: \<open>a\<close> to \<open>z\<close> are 97 to 122,
  \<open>A\<close> to \<open>Z\<close> 65 to 90, \<open>0\<close> to \<open>9\<close> 48 to 57, and the hyphen is 45.
  \<open>split_on\<close> cuts a string at every separator, keeping empty pieces.
\<close>

definition label_char :: "char \<Rightarrow> bool" where
  "label_char c =
     (let n = (of_char c :: nat) in
        (97 \<le> n \<and> n \<le> 122) \<or> (65 \<le> n \<and> n \<le> 90) \<or> (48 \<le> n \<and> n \<le> 57) \<or> n = 45)"

fun split_on :: "char \<Rightarrow> string \<Rightarrow> string list" where
  "split_on d [] = [[]]"
| "split_on d (c # cs) =
     (if c = d then [] # split_on d cs
      else (case split_on d cs of
              [] \<Rightarrow> [[c]]
            | l # ls \<Rightarrow> (c # l) # ls))"

definition valid_label :: "string \<Rightarrow> bool" where
  "valid_label l = (l \<noteq> [] \<and> list_all label_char l)"

definition valid_hostname :: "string \<Rightarrow> bool" where
  "valid_hostname s = (s \<noteq> [] \<and> list_all valid_label (split_on (CHR ''.'') s))"

fun hostname_entry :: "jsval \<Rightarrow> bool" where
  "hostname_entry (JStr s) = valid_hostname s"
| "hostname_entry (JBool b) = False"
| "hostname_entry (JArr xs) = False"
| "hostname_entry (JObj kvs) = False"

section \<open>Basic facts\<close>

lemma load_with_returns: "load_with cfg m = Inr cfg"
  by (simp add: load_with_def module_body_def)

lemma load_returns: "load m = Inr nextConfig"
  by (simp add: load_def load_with_returns)

lemma module_body_rest: "module.more (module_body cfg m) = module.more m"
  by (simp add: module_body_def)

lemma read_loaded_Inr: "read_loaded f (Inr cfg) = f cfg"
  by (simp add: read_loaded_def)

lemma read_loaded_load_with: "read_loaded f (load_with cfg m) = f cfg"
  by (simp add: read_loaded_Inr load_with_returns)

lemma sources_of_nextConfig:
  "imageRemoteSources nextConfig =
     Some [JStr ''images.unsplash.com'', JStr ''ik.imagekit.io'',
           JStr ''tailark.com'', JStr ''html.tailus.io'']"
  by (simp add: imageRemoteSources_def nextConfig_def)

lemma flags_of_nextConfig:
  "experimentalFlags nextConfig = Some [(''appDir'', JBool True)]"
  by (simp add: experimentalFlags_def nextConfig_def)

lemma module_body_twice: "module_body cfg (module_body cfg m) = module_body cfg m"
  by (simp add: module_body_def)

lemma keys_of_nextConfig: "own_keys nextConfig = Some [''experimental'', ''images'']"
  by (simp add: nextConfig_def)

lemma hostname_images_unsplash: "valid_hostname ''images.unsplash.com''"
  by (simp add: valid_hostname_def valid_label_def label_char_def)

lemma hostname_ik_imagekit: "valid_hostname ''ik.imagekit.io''"
  by (simp add: valid_hostname_def valid_label_def label_char_def)

lemma hostname_tailark: "valid_hostname ''tailark.com''"
  by (simp add: valid_hostname_def valid_label_def label_char_def)

lemma hostname_html_tailus: "valid_hostname ''html.tailus.io''"
  by (simp add: valid_hostname_def valid_label_def label_char_def)

lemma not_a_host_rejected: "\<not> valid_hostname ''not a host!''"
  by (simp add: valid_hostname_def valid_label_def label_char_def)

section \<open>The exported value\<close>

text \<open>
  C8. The exported configuration is exactly
  \<open>{ experimental: { appDir: true }, images: { domains: [...] } }\<close> with the four
  hostnames \<open>images.unsplash.com\<close>, \<open>ik.imagekit.io\<close>, \<open>tailark.com\<close>,
  \<open>html.tailus.io\<close> in that order: \<open>experimental.appDir\<close> is \<open>true\<close> and
  \<open>images.domains\<close> is that list.
\<close>

theorem exported_value_exact:
  "load m =
     Inr (JObj [(''experimental'', JObj [(''appDir'', JBool True)]),
                (''images'', JObj [(''domains'',
                   JArr [JStr ''images.unsplash.com'', JStr ''ik.imagekit.io'',
                         JStr ''tailark.com'', JStr ''html.tailus.io''])])])
   \<and> read_loaded (\<lambda>c. Option.bind (own_property ''experimental'' c) (own_property ''appDir''))
        (load m) = Some (JBool True)
   \<and> read_loaded (\<lambda>c. Option.bind (own_property ''images'' c) (own_property ''domains''))
        (load m) =
       Some (JArr [JStr ''images.unsplash.com'', JStr ''ik.imagekit.io'',
                   JStr ''tailark.com'', JStr ''html.tailus.io''])"
  by (simp add: load_returns read_loaded_Inr nextConfig_def)

text \<open>
  C9. The exported object has exactly the two top-level keys \<open>experimental\<close>
  and \<open>images\<close>; \<open>experimental\<close> has exactly the key \<open>appDir\<close> and \<open>images\<close>
  exactly the key \<open>domains\<close>.
\<close>

theorem exported_keys_exact:
  "read_loaded own_keys (load m) = Some [''experimental'', ''images'']
   \<and> read_loaded (\<lambda>c. Option.bind (own_property ''experimental'' c) own_keys) (load m)
       = Some [''appDir'']
   \<and> read_loaded (\<lambda>c. Option.bind (own_property ''images'' c) own_keys) (load m)
       = Some [''domains'']"
  by (simp add: load_returns read_loaded_Inr nextConfig_def)

section \<open>Loading twice\<close>

text \<open>
  C1. Any two invocations of \<open>load\<close> return the same structure, whatever the
  module object held before (\<open>m\<close> and \<open>m'\<close>), also when the second follows
  the first; in particular they give the same set of hostnames. Evaluating
  the file leaves everything of the module object but \<open>exports\<close> as it was,
  and evaluating it again changes nothing.
\<close>

theorem load_deterministic:
  "load m = load m'
   \<and> load (module_body nextConfig m) = load m
   \<and> map_option set (read_loaded imageRemoteSources (load m))
       = map_option set (read_loaded imageRemoteSources (load m'))
   \<and> module.more (module_body nextConfig m) = module.more m
   \<and> module_body nextConfig (module_body nextConfig m) = module_body nextConfig m"
  by (simp add: load_returns module_body_rest module_body_twice)

section \<open>The hostnames\<close>

text \<open>
  C2. The list \<open>imageRemoteSources\<close> of the loaded configuration has no
  duplicate entry: the entries at two different positions are different.
\<close>

theorem sources_no_duplicates:
  "\<exists>ds. read_loaded imageRemoteSources (load m) = Some ds
        \<and> distinct ds
        \<and> (\<forall>i < length ds. \<forall>j < length ds. i \<noteq> j \<longrightarrow> ds ! i \<noteq> ds ! j)"
proof -
  let ?ds = "[JStr ''images.unsplash.com'', JStr ''ik.imagekit.io'',
              JStr ''tailark.com'', JStr ''html.tailus.io'']"
  have loaded: "read_loaded imageRemoteSources (load m) = Some ?ds"
    by (simp add: load_returns read_loaded_Inr sources_of_nextConfig)
  have d: "distinct ?ds"
    by simp
  from d have "\<forall>i < length ?ds. \<forall>j < length ?ds. i \<noteq> j \<longrightarrow> ?ds ! i \<noteq> ?ds ! j"
    by (simp only: distinct_conv_nth)
  with loaded d show ?thesis
    by blast
qed

theorem sources_no_duplicates_witness:
  "\<exists>ds. read_loaded imageRemoteSources (load \<lparr>exports = JObj []\<rparr>) = Some ds
        \<and> (0::nat) < length ds \<and> (1::nat) < length ds \<and> (0::nat) \<noteq> 1
        \<and> ds ! 0 \<noteq> ds ! 1"
proof -
  obtain ds where
    loaded: "read_loaded imageRemoteSources (load \<lparr>exports = JObj []\<rparr>) = Some ds" and
    apart: "\<forall>i < length ds. \<forall>j < length ds. i \<noteq> j \<longrightarrow> ds ! i \<noteq> ds ! j"
    using sources_no_duplicates [of "\<lparr>exports = JObj []\<rparr>"] by blast
  from loaded have len: "length ds = 4"
    by (auto simp add: load_returns read_loaded_Inr sources_of_nextConfig)
  from len have b0: "0 < length ds" and b1: "1 < length ds"
    by simp_all
  from apart b0 b1 have "ds ! 0 \<noteq> ds ! 1"
    by (metis zero_neq_one)
  with loaded b0 b1 show ?thesis
    by auto
qed

text \<open>
  C3. Every entry of \<open>imageRemoteSources\<close> of the loaded configuration is a
  non-empty string of the hostname pattern (labels of letters, digits and
  hyphens, separated by dots); \<open>images.unsplash.com\<close> is of the pattern and
  \<open>not a host!\<close> is not.
\<close>

theorem sources_are_hostnames:
  "(\<exists>ds. read_loaded imageRemoteSources (load m) = Some ds
         \<and> (\<forall>e \<in> set ds. \<exists>s. e = JStr s \<and> s \<noteq> [] \<and> valid_hostname s))
   \<and> valid_hostname ''images.unsplash.com''
   \<and> \<not> valid_hostname ''not a host!''"
proof -
  have "read_loaded imageRemoteSources (load m) =
          Some [JStr ''images.unsplash.com'', JStr ''ik.imagekit.io'',
                JStr ''tailark.com'', JStr ''html.tailus.io'']"
    by (simp add: load_returns read_loaded_Inr sources_of_nextConfig)
  moreover have "\<forall>e \<in> set [JStr ''images.unsplash.com'', JStr ''ik.imagekit.io'',
                             JStr ''tailark.com'', JStr ''html.tailus.io''].
                   \<exists>s. e = JStr s \<and> s \<noteq> [] \<and> valid_hostname s"
    using hostname_images_unsplash hostname_ik_imagekit hostname_tailark hostname_html_tailus
    by simp
  ultimately show ?thesis
    using hostname_images_unsplash not_a_host_rejected by blast
qed

theorem sources_are_hostnames_witness:
  "\<exists>ds. read_loaded imageRemoteSources (load \<lparr>exports = JObj []\<rparr>) = Some ds
        \<and> JStr ''tailark.com'' \<in> set ds
        \<and> (\<exists>s. JStr ''tailark.com'' = JStr s \<and> s \<noteq> [] \<and> valid_hostname s)"
proof -
  obtain ds where
    loaded: "read_loaded imageRemoteSources (load \<lparr>exports = JObj []\<rparr>) = Some ds" and
    each: "\<forall>e \<in> set ds. \<exists>s. e = JStr s \<and> s \<noteq> [] \<and> valid_hostname s"
    using sources_are_hostnames [of "\<lparr>exports = JObj []\<rparr>"] by blast
  from loaded have mem: "JStr ''tailark.com'' \<in> set ds"
    by (auto simp add: load_returns read_loaded_Inr sources_of_nextConfig)
  with each have "\<exists>s. JStr ''tailark.com'' = JStr s \<and> s \<noteq> [] \<and> valid_hostname s"
    by blast
  with loaded mem show ?thesis
    by blast
qed

text \<open>
  C7. Loading keeps the declared order of \<open>imageRemoteSources\<close> and neither
  reorders nor deduplicates: what is read after loading is what the literal
  declares, for any literal; for \<open>{ images: { domains: ['a.com','b.com'] } }\<close>
  it is \<open>['a.com', 'b.com']\<close>, and for the literal of the file it is the four
  hostnames in their written order.
\<close>

theorem sources_order_preserved:
  "read_loaded imageRemoteSources (load_with cfg m) = imageRemoteSources cfg
   \<and> read_loaded imageRemoteSources
        (load_with (JObj [(''images'', JObj [(''domains'', JArr ds)])]) m) = Some ds
   \<and> read_loaded imageRemoteSources
        (load_with (JObj [(''images'', JObj [(''domains'',
                      JArr [JStr ''a.com'', JStr ''b.com''])])]) m)
       = Some [JStr ''a.com'', JStr ''b.com'']
   \<and> read_loaded imageRemoteSources (load m)
       = Some [JStr ''images.unsplash.com'', JStr ''ik.imagekit.io'',
               JStr ''tailark.com'', JStr ''html.tailus.io'']"
proof -
  have single: "imageRemoteSources (JObj [(''images'', JObj [(''domains'', JArr xs)])]) = Some xs"
    for xs
    by (simp add: imageRemoteSources_def)
  have "read_loaded imageRemoteSources (load m) = imageRemoteSources nextConfig"
    by (simp only: load_def read_loaded_load_with)
  then show ?thesis
    by (simp only: read_loaded_load_with single sources_of_nextConfig simp_thms)
qed

section \<open>The experimental flags\<close>

text \<open>
  C4. The keys of \<open>experimentalFlags\<close> of the loaded configuration are a fixed
  set, \<open>appDir\<close> alone; no other key is present, and every value is a boolean.
\<close>

theorem experimental_flags_fixed:
  "\<exists>kvs. read_loaded experimentalFlags (load m) = Some kvs
         \<and> map fst kvs = [''appDir'']
         \<and> set (map fst kvs) = {''appDir''}
         \<and> list_all is_boolean (map snd kvs)
         \<and> (\<forall>k. k \<notin> {''appDir''} \<longrightarrow> map_of kvs k = None)"
proof (intro exI [of _ "[(''appDir'', JBool True)]"] conjI)
  show "read_loaded experimentalFlags (load m) = Some [(''appDir'', JBool True)]"
    by (simp only: load_returns read_loaded_Inr flags_of_nextConfig)
  show "map fst [(''appDir'', JBool True)] = [''appDir'']"
    by simp
  show "set (map fst [(''appDir'', JBool True)]) = {''appDir''}"
    by simp
  show "list_all is_boolean (map snd [(''appDir'', JBool True)])"
    by simp
  show "\<forall>k. k \<notin> {''appDir''} \<longrightarrow> map_of [(''appDir'', JBool True)] k = None"
    by simp
qed

theorem experimental_flags_fixed_witness:
  "\<exists>kvs. read_loaded experimentalFlags (load \<lparr>exports = JObj []\<rparr>) = Some kvs
         \<and> ''serverActions'' \<notin> {''appDir''}
         \<and> map_of kvs ''serverActions'' = None"
proof -
  obtain kvs where
    loaded: "read_loaded experimentalFlags (load \<lparr>exports = JObj []\<rparr>) = Some kvs" and
    others: "\<forall>k. k \<notin> {''appDir''} \<longrightarrow> map_of kvs k = None"
    using experimental_flags_fixed [of "\<lparr>exports = JObj []\<rparr>"] by blast
  have unknown: "''serverActions'' \<notin> {''appDir''}"
    by simp
  from others have "''serverActions'' \<notin> {''appDir''} \<longrightarrow> map_of kvs ''serverActions'' = None"
    by (rule spec)
  with unknown have absent: "map_of kvs ''serverActions'' = None"
    by (rule rev_mp)
  show ?thesis
    by (intro exI [of _ kvs] conjI) (fact loaded unknown absent)+
qed

section \<open>No validation, no exception\<close>

text \<open>
  C5. \<open>load\<close> always returns a value and never an exception, and it validates
  nothing: whatever literal the file holds is returned as it is, also one
  whose \<open>images.domains\<close> holds the invalid hostname \<open>not a host!\<close>.
\<close>

theorem load_never_throws:
  "load m = Inr nextConfig
   \<and> (\<forall>e. load m \<noteq> Inl e)
   \<and> load_with cfg m = Inr cfg
   \<and> load_with (JObj [(''images'', JObj [(''domains'', JArr [JStr ''not a host!''])])]) m
       = Inr (JObj [(''images'', JObj [(''domains'', JArr [JStr ''not a host!''])])])
   \<and> \<not> hostname_entry (JStr ''not a host!'')"
  by (simp add: load_returns load_with_returns not_a_host_rejected)

end
